theory Spec2Isabelle
  imports Complex_Main
begin

section \<open>Command line handling and exit codes of \<open>main\<close> (source/main.cxx)\<close>

text \<open>
  The program writes to two streams and hands over to the solvers inside a
  \<open>try\<close> block. What the program does is recorded as a list of events; the
  value returned by \<open>main\<close> (or passed to \<open>exit\<close>) is the exit code.
\<close>

datatype stream = Cout | Cerr

datatype event =
    Print stream string
  | MpiInit
  | ReadDimension string
  | Run2d string
  | Run3d string

text \<open>An exception is either derived from \<open>std::exception\<close> (with its \<open>what()\<close>) or anything else.\<close>

datatype exc = StdException string | UnknownException

text \<open>How a block of statements ends: it falls through, calls \<open>exit\<close>, or throws.\<close>

datatype completion = Returned | Exited int | Thrown exc

text \<open>
  The collaborators called inside the \<open>try\<close> block are declared in run\_problem.h
  and the library; they are parameters of the model. Each one either returns or throws.
\<close>

record env =
  mpi_initialization :: "exc option"
  hello :: string
  dimension :: "string \<Rightarrow> exc + int"
  run_2d_problem :: "string \<Rightarrow> exc option"
  run_3d_problem :: "string \<Rightarrow> exc option"

definition endl :: string where
  "endl = [CHR 0x0A]"

definition dquote :: string where
  "dquote = [CHR 0x22]"

definition squote :: string where
  "squote = [CHR 0x27]"

definition msg_no_input :: string where
  "msg_no_input =
     ''You must provide an input file '' @ dquote @ ''-p <filename>'' @ dquote @ endl"

definition msg_missing_file :: string where
  "msg_missing_file =
     ''Error: flag '' @ squote @ ''-p'' @ squote @ '' must be followed by the ''
       @ ''name of a parameter file.'' @ endl"

definition msg_unknown_option :: "string \<Rightarrow> string" where
  "msg_unknown_option a = ''Unknown command line option: '' @ a @ endl"

definition msg_dimension :: string where
  "msg_dimension = ''The dimension must be 2 or 3.'' @ endl"

definition dashes :: string where
  "dashes = ''----------------------------------------------------''"

definition banner_exception :: "string \<Rightarrow> string" where
  "banner_exception what =
     endl @ endl @ dashes @ endl
       @ ''Exception on processing: '' @ endl @ what @ endl
       @ ''Aborting!'' @ endl @ dashes @ endl"

definition banner_unknown :: string where
  "banner_unknown =
     endl @ endl @ dashes @ endl
       @ ''Unknown exception!'' @ endl
       @ ''Aborting!'' @ endl @ dashes @ endl"

text \<open>
  The \<open>while (args.size())\<close> loop of \<open>main\<close>. The list holds \<open>argv[1..]\<close>, the
  second argument is \<open>input_file\<close>. \<open>Inl\<close> is a message on \<open>std::cerr\<close> followed
  by \<open>exit(1)\<close>; \<open>Inr\<close> is the value of \<open>input_file\<close> when the loop ends.
\<close>

fun parse_loop :: "string list \<Rightarrow> string \<Rightarrow> string + string" where
  "parse_loop [] input_file = Inr input_file"
| "parse_loop (front # rest) input_file =
     (if front = ''-p'' then
        (case rest of
           [] \<Rightarrow> Inl msg_missing_file
         | f # rest' \<Rightarrow> parse_loop rest' f)
      else Inl (msg_unknown_option front))"

text \<open>The body of the \<open>try\<close> block, for a release build.\<close>

definition try_block :: "env \<Rightarrow> string \<Rightarrow> event list \<times> completion" where
  "try_block e input_file =
     (case mpi_initialization e of
        Some x \<Rightarrow> ([MpiInit], Thrown x)
      | None \<Rightarrow>
          (let pre = [MpiInit, Print Cout (hello e), ReadDimension input_file] in
           case dimension e input_file of
             Inl x \<Rightarrow> (pre, Thrown x)
           | Inr d \<Rightarrow>
               if d = 2 then
                 (case run_2d_problem e input_file of
                    Some x \<Rightarrow> (pre @ [Run2d input_file], Thrown x)
                  | None \<Rightarrow> (pre @ [Run2d input_file], Returned))
               else if d = 3 then
                 (case run_3d_problem e input_file of
                    Some x \<Rightarrow> (pre @ [Run3d input_file], Thrown x)
                  | None \<Rightarrow> (pre @ [Run3d input_file], Returned))
               else (pre @ [Print Cout msg_dimension], Exited 1)))"

text \<open>
  \<open>main\<close>: \<open>argv\<close> is the whole argument vector (\<open>argc = length argv\<close>, the
  program name first). The result is the list of events and the exit code.
\<close>

definition banner :: "exc \<Rightarrow> string" where
  "banner x = (case x of StdException what \<Rightarrow> banner_exception what
                       | UnknownException \<Rightarrow> banner_unknown)"

definition main :: "env \<Rightarrow> string list \<Rightarrow> event list \<times> int" where
  "main e argv =
     (if length argv < 2 then ([Print Cout msg_no_input], 1)
      else
        case parse_loop (tl argv) [] of
          Inl m \<Rightarrow> ([Print Cerr m], 1)
        | Inr input_file \<Rightarrow>
            (case try_block e input_file of
               (evs, Returned) \<Rightarrow> (evs, 0)
             | (evs, Exited c) \<Rightarrow> (evs, c)
             | (evs, Thrown x) \<Rightarrow> (evs @ [Print Cerr (banner x)], 1)))"

text \<open>
  \<open>throws e f x\<close>: with parameter file \<open>f\<close>, one of the collaborators reached inside
  the \<open>try\<close> block throws \<open>x\<close>. \<open>completes e f\<close>: none throws and the dimension
  read from the file is 2 or 3.
\<close>

definition throws :: "env \<Rightarrow> string \<Rightarrow> exc \<Rightarrow> bool" where
  "throws e f x \<longleftrightarrow>
     mpi_initialization e = Some x \<or>
     mpi_initialization e = None \<and>
       (dimension e f = Inl x \<or>
        dimension e f = Inr 2 \<and> run_2d_problem e f = Some x \<or>
        dimension e f = Inr 3 \<and> run_3d_problem e f = Some x)"

definition completes :: "env \<Rightarrow> string \<Rightarrow> bool" where
  "completes e f \<longleftrightarrow>
     mpi_initialization e = None \<and>
       (dimension e f = Inr 2 \<and> run_2d_problem e f = None \<or>
        dimension e f = Inr 3 \<and> run_3d_problem e f = None)"

text \<open>A command line of well-formed pairs: \<open>-p f1 -p f2 ...\<close>.\<close>

definition pairs :: "string list \<Rightarrow> string list" where
  "pairs fs = concat (map (\<lambda>f. [''-p'', f]) fs)"

definition solver_event :: "event \<Rightarrow> bool" where
  "solver_event ev = (case ev of Print s m \<Rightarrow> False | _ \<Rightarrow> True)"

text \<open>Sample environments: every collaborator returns; the 2D run throws.\<close>

definition env_ok :: env where
  "env_ok = \<lparr>mpi_initialization = None, hello = ''Hello'',
             dimension = (\<lambda>f. Inr 2),
             run_2d_problem = (\<lambda>f. None), run_3d_problem = (\<lambda>f. None)\<rparr>"

definition env_throwing :: env where
  "env_throwing = \<lparr>mpi_initialization = None, hello = ''Hello'',
             dimension = (\<lambda>f. Inr 2),
             run_2d_problem = (\<lambda>f. Some (StdException ''no convergence'')),
             run_3d_problem = (\<lambda>f. None)\<rparr>"

section \<open>The Q1 trace function \<open>BasisQ1\<close> (include/basis\_funs.tpp)\<close>

text \<open>
  \<open>double\<close> is modelled by \<open>real\<close>. A \<open>Point<dim>\<close> is a tuple of coordinates, a
  \<open>FullMatrix<double>\<close> a list of rows, a \<open>Vector<double>\<close> a list, a \<open>Tensor<1,dim>\<close>
  a tuple. A cell is given by its vertices: \<open>cell i\<close> is \<open>cell->vertex(i)\<close>.
  Element access outside the stored range is an error value, as the library's index
  assertions make it. The properties below relate evaluations of the same arithmetic
  expressions; none of them depends on how a product or a sum is rounded.
\<close>

type_synonym point_2 = "real \<times> real"
type_synonym point_3 = "real \<times> real \<times> real"
type_synonym full_matrix = "real list list"
type_synonym vector = "real list"
type_synonym tensor_2 = "real \<times> real"
type_synonym tensor_3 = "real \<times> real \<times> real"
type_synonym cell_2 = "nat \<Rightarrow> point_2"
type_synonym cell_3 = "nat \<Rightarrow> point_3"

datatype error = ExcIndexRange | ExcDimensionMismatch nat nat

record BasisQ1 =
  index_basis :: nat
  coeff_matrix :: full_matrix

definition point_matrix_2 :: "cell_2 \<Rightarrow> full_matrix" where
  "point_matrix_2 cell =
     map (\<lambda>i. case cell i of (p0, p1) \<Rightarrow> [1, p0, p1, p0 * p1]) [0..<4]"

definition point_matrix_3 :: "cell_3 \<Rightarrow> full_matrix" where
  "point_matrix_3 cell =
     map (\<lambda>i. case cell i of (p0, p1, p2) \<Rightarrow>
            [1, p0, p1, p2, p0 * p1, p1 * p2, p0 * p2, p0 * p1 * p2]) [0..<8]"

text \<open>
  The constructors from a cell. \<open>FullMatrix::invert\<close> belongs to the finite element
  library; it is the parameter \<open>invert\<close>.
\<close>

definition BasisQ1_2 :: "(full_matrix \<Rightarrow> full_matrix) \<Rightarrow> cell_2 \<Rightarrow> BasisQ1" where
  "BasisQ1_2 invert cell =
     \<lparr>index_basis = 0, coeff_matrix = invert (point_matrix_2 cell)\<rparr>"

definition BasisQ1_3 :: "(full_matrix \<Rightarrow> full_matrix) \<Rightarrow> cell_3 \<Rightarrow> BasisQ1" where
  "BasisQ1_3 invert cell =
     \<lparr>index_basis = 0, coeff_matrix = invert (point_matrix_3 cell)\<rparr>"

text \<open>The copy constructor.\<close>

definition BasisQ1_copy :: "BasisQ1 \<Rightarrow> BasisQ1" where
  "BasisQ1_copy basis = \<lparr>index_basis = 0, coeff_matrix = coeff_matrix basis\<rparr>"

definition set_index :: "BasisQ1 \<Rightarrow> nat \<Rightarrow> BasisQ1" where
  "set_index b index = b\<lparr>index_basis := index\<rparr>"

definition in_range :: "full_matrix \<Rightarrow> nat \<Rightarrow> nat \<Rightarrow> bool" where
  "in_range M i j \<longleftrightarrow> i < length M \<and> j < length (M ! i)"

text \<open>The local \<open>double value\<close> of \<open>vector_value\<close>.\<close>

definition value_2 :: "BasisQ1 \<Rightarrow> point_2 \<Rightarrow> error + real" where
  "value_2 b p =
     (let C = coeff_matrix b; k = index_basis b in
      if list_all (\<lambda>i. in_range C i k) [0..<4] then
        (case p of (p0, p1) \<Rightarrow>
           Inr (C ! 0 ! k + C ! 1 ! k * p0 + C ! 2 ! k * p1 + C ! 3 ! k * p0 * p1))
      else Inl ExcIndexRange)"

definition value_3 :: "BasisQ1 \<Rightarrow> point_3 \<Rightarrow> error + real" where
  "value_3 b p =
     (let C = coeff_matrix b; k = index_basis b in
      if list_all (\<lambda>i. in_range C i k) [0..<8] then
        (case p of (p0, p1, p2) \<Rightarrow>
           Inr (C ! 0 ! k + C ! 1 ! k * p0 + C ! 2 ! k * p1 + C ! 3 ! k * p2
                + C ! 4 ! k * p0 * p1 + C ! 5 ! k * p1 * p2 + C ! 6 ! k * p0 * p2
                + C ! 7 ! k * p0 * p1 * p2))
      else Inl ExcIndexRange)"

text \<open>
  \<open>vector_value\<close> writes into the vector it is handed; the model returns the
  updated vector.
\<close>

definition vector_value_2 :: "BasisQ1 \<Rightarrow> point_2 \<Rightarrow> vector \<Rightarrow> error + vector" where
  "vector_value_2 b p vector_value =
     (case value_2 b p of
        Inl err \<Rightarrow> Inl err
      | Inr v \<Rightarrow>
          if length vector_value < 2 then Inl ExcIndexRange
          else Inr (vector_value[0 := v, 1 := v]))"

definition vector_value_3 :: "BasisQ1 \<Rightarrow> point_3 \<Rightarrow> vector \<Rightarrow> error + vector" where
  "vector_value_3 b p vector_value =
     (case value_3 b p of
        Inl err \<Rightarrow> Inl err
      | Inr v \<Rightarrow>
          if length vector_value < 3 then Inl ExcIndexRange
          else Inr (vector_value[0 := v, 1 := v, 2 := v]))"

text \<open>
  The four list functions share one loop, \<open>for (p = 0; p < points.size(); ++p)\<close>,
  which overwrites \<open>values[p]\<close>; they differ in the loop body.
\<close>

function value_list_loop ::
  "('p \<Rightarrow> 'v \<Rightarrow> error + 'v) \<Rightarrow> 'p list \<Rightarrow> nat \<Rightarrow> 'v list \<Rightarrow> error + 'v list" where
  "value_list_loop body points p values =
     (if p < length points then
        (case body (points ! p) (values ! p) of
           Inl err \<Rightarrow> Inl err
         | Inr v \<Rightarrow> value_list_loop body points (Suc p) (values[p := v]))
      else Inr values)"
  by pat_completeness auto
termination
  by (relation "measure (\<lambda>(body, points, p, values). length points - p)") auto

declare value_list_loop.simps [simp del]

text \<open>The \<open>Assert\<close> on the two sizes, then the loop.\<close>

definition value_list ::
  "('p \<Rightarrow> 'v \<Rightarrow> error + 'v) \<Rightarrow> 'p list \<Rightarrow> 'v list \<Rightarrow> error + 'v list" where
  "value_list body points values =
     (if length points = length values then value_list_loop body points 0 values
      else Inl (ExcDimensionMismatch (length points) (length values)))"

definition vector_value_list_2 ::
  "BasisQ1 \<Rightarrow> point_2 list \<Rightarrow> vector list \<Rightarrow> error + vector list" where
  "vector_value_list_2 b points values = value_list (vector_value_2 b) points values"

definition vector_value_list_3 ::
  "BasisQ1 \<Rightarrow> point_3 list \<Rightarrow> vector list \<Rightarrow> error + vector list" where
  "vector_value_list_3 b points values = value_list (vector_value_3 b) points values"

text \<open>
  The body of the loop of \<open>tensor_value_list\<close>: \<open>value_tmp = 0\<close>, the call of
  \<open>vector_value\<close>, and the copy of the components into \<open>values[p]\<close>.
\<close>

definition tensor_body_2 :: "BasisQ1 \<Rightarrow> point_2 \<Rightarrow> tensor_2 \<Rightarrow> error + tensor_2" where
  "tensor_body_2 b pt t =
     (case vector_value_2 b pt [0, 0] of
        Inl err \<Rightarrow> Inl err
      | Inr value_tmp \<Rightarrow> Inr (value_tmp ! 0, value_tmp ! 1))"

definition tensor_body_3 :: "BasisQ1 \<Rightarrow> point_3 \<Rightarrow> tensor_3 \<Rightarrow> error + tensor_3" where
  "tensor_body_3 b pt t =
     (case vector_value_3 b pt [0, 0, 0] of
        Inl err \<Rightarrow> Inl err
      | Inr value_tmp \<Rightarrow> Inr (value_tmp ! 0, value_tmp ! 1, value_tmp ! 2))"

definition tensor_value_list_2 ::
  "BasisQ1 \<Rightarrow> point_2 list \<Rightarrow> tensor_2 list \<Rightarrow> error + tensor_2 list" where
  "tensor_value_list_2 b points values = value_list (tensor_body_2 b) points values"

definition tensor_value_list_3 ::
  "BasisQ1 \<Rightarrow> point_3 list \<Rightarrow> tensor_3 list \<Rightarrow> error + tensor_3 list" where
  "tensor_value_list_3 b points values = value_list (tensor_body_3 b) points values"

subsection \<open>Notions used to state the properties\<close>




subsection \<open>The Dirichlet trace of a local coarse DoF\<close>




subsection \<open>Sample cells\<close>

definition unit_square :: cell_2 where
  "unit_square i = (if i = 0 then (0, 0) else if i = 1 then (1, 0)
                    else if i = 2 then (0, 1) else (1, 1))"

definition unit_square_inverse :: full_matrix where
  "unit_square_inverse =
     [[ 1,  0,  0, 0],
      [-1,  1,  0, 0],
      [-1,  0,  1, 0],
      [ 1, -1, -1, 1]]"

definition unit_cube :: cell_3 where
  "unit_cube i =
     (if i = 0 then (0, 0, 0) else if i = 1 then (1, 0, 0)
      else if i = 2 then (0, 1, 0) else if i = 3 then (1, 1, 0)
      else if i = 4 then (0, 0, 1) else if i = 5 then (1, 0, 1)
      else if i = 6 then (0, 1, 1) else (1, 1, 1))"

definition unit_cube_inverse :: full_matrix where
  "unit_cube_inverse =
     [[ 1,  0,  0,  0,  0,  0,  0, 0],
      [-1,  1,  0,  0,  0,  0,  0, 0],
      [-1,  0,  1,  0,  0,  0,  0, 0],
      [-1,  0,  0,  0,  1,  0,  0, 0],
      [ 1, -1, -1,  1,  0,  0,  0, 0],
      [ 1,  0, -1,  0, -1,  0,  1, 0],
      [ 1, -1,  0,  0, -1,  1,  0, 0],
      [-1,  1,  1, -1,  1, -1, -1, 1]]"

text \<open>An inversion routine that is right on the two sample cells.\<close>

definition sample_invert :: "full_matrix \<Rightarrow> full_matrix" where
  "sample_invert M = (if length M = 4 then unit_square_inverse else unit_cube_inverse)"

section \<open>The body force (include/forces\_and\_lame\_parameters.h)\<close>

record BodyForce =
  grav :: real
  rho :: real
  force_value :: real

text \<open>The constructor: \<open>grav\<close> has the default member initialiser 9.81.\<close>

definition BodyForce_init :: "real \<Rightarrow> BodyForce" where
  "BodyForce_init rho_in = \<lparr>grav = 9.81, rho = rho_in, force_value = 9.81 * rho_in\<rparr>"

text \<open>
  Modelled from the spec: \<open>BodyForce::vector_value\<close> is only declared in the header; its
  body is in a source file that is not among the sources. The specification gives
  \<open>BodyForce = \<rho> \<cdot> g \<cdot> e_down\<close>, a constant field: the force density \<open>force_value\<close> acts
  against the last coordinate direction and the other components vanish. The point
  is not used.
\<close>

definition BodyForce_vector_value :: "nat \<Rightarrow> BodyForce \<Rightarrow> real list \<Rightarrow> real list" where
  "BodyForce_vector_value d bf point = replicate (d - 1) 0 @ [- force_value bf]"

section \<open>Properties of the argument loop and of \<open>main\<close>\<close>

lemma pairs_Nil: "pairs [] = []"
  by (simp add: pairs_def)

lemma pairs_Cons: "pairs (f # fs) = ''-p'' # f # pairs fs"
  by (simp add: pairs_def)

lemma parse_loop_pairs_append:
  "parse_loop (pairs fs @ rest) input_file =
     parse_loop rest (if fs = [] then input_file else last fs)"
  by (induction fs arbitrary: input_file) (simp_all add: pairs_Nil pairs_Cons)

lemma try_block_throws: "throws e f x \<Longrightarrow> snd (try_block e f) = Thrown x"
  by (auto simp: throws_def try_block_def Let_def split: option.splits sum.splits)

lemma try_block_completes: "completes e f \<Longrightarrow> snd (try_block e f) = Returned"
  by (auto simp: completes_def try_block_def Let_def split: option.splits sum.splits)

text \<open>
  C5. A command line without the parameter-file argument makes the program print one
  message and leave with exit code 1, and nothing else happens: with no argument at
  all (\<open>argc < 2\<close>) the message goes to \<open>std::cout\<close>; with a \<open>-p\<close> in flag position
  that is the last argument (after any number of well-formed pairs) it goes to
  \<open>std::cerr\<close>. The list of events is the single message, so no solver event occurs.
\<close>

theorem main_missing_parameter_file:
  "(length argv < 2 \<longrightarrow> main e argv = ([Print Cout msg_no_input], 1)) \<and>
   main e (prog # pairs fs @ [''-p'']) = ([Print Cerr msg_missing_file], 1) \<and>
   (length argv < 2 \<longrightarrow> \<not> list_ex solver_event (fst (main e argv))) \<and>
   \<not> list_ex solver_event (fst (main e (prog # pairs fs @ [''-p''])))"
  by (simp add: main_def parse_loop_pairs_append solver_event_def)

theorem main_missing_parameter_file_witness:
  "length [''prog''] < 2 \<and>
   main env_ok [''prog''] = ([Print Cout msg_no_input], 1) \<and>
   main env_ok [''prog'', ''-p'', ''a.prm'', ''-p''] = ([Print Cerr msg_missing_file], 1) \<and>
   \<not> list_ex solver_event (fst (main env_ok [''prog''])) \<and>
   \<not> list_ex solver_event (fst (main env_ok [''prog'', ''-p'', ''a.prm'', ''-p'']))"
  using main_missing_parameter_file [of "[''prog'']" env_ok "''prog''" "[''a.prm'']"]
  by (simp add: pairs_def solver_event_def)

text \<open>
  C6. When, after any number of well-formed \<open>-p <filename>\<close> pairs, the next argument
  is not \<open>-p\<close>, the program reports exactly that argument as an unknown command line
  option on \<open>std::cerr\<close> and leaves with exit code 1, whatever follows it.
\<close>

theorem main_unknown_option:
  "x \<noteq> ''-p'' \<Longrightarrow>
     main e (prog # pairs fs @ x # rest) = ([Print Cerr (msg_unknown_option x)], 1)"
  by (simp add: main_def parse_loop_pairs_append)

theorem main_unknown_option_witness:
  "''-q'' \<noteq> ''-p'' \<and>
   main env_ok [''prog'', ''-p'', ''a.prm'', ''-q'', ''-p'', ''b.prm'']
     = ([Print Cerr (msg_unknown_option ''-q'')], 1)"
  using main_unknown_option [of "''-q''" env_ok "''prog''" "[''a.prm'']" "[''-p'', ''b.prm'']"]
  by (simp add: pairs_def)

text \<open>
  C7. Once the arguments are parsed (parameter file \<open>f\<close>): if a collaborator inside the
  \<open>try\<close> block throws an exception \<open>x\<close>, derived from \<open>std::exception\<close> or not, \<open>main\<close>
  prints the banner for \<open>x\<close> on \<open>std::cerr\<close> after what was done before and returns 1;
  if nothing throws and the dimension is 2 or 3, \<open>main\<close> returns 0.
\<close>

theorem main_exit_codes:
  assumes "2 \<le> length argv" and "parse_loop (tl argv) [] = Inr f"
  shows "(throws e f x \<longrightarrow>
            main e argv = (fst (try_block e f) @ [Print Cerr (banner x)], 1)) \<and>
         (completes e f \<longrightarrow> main e argv = (fst (try_block e f), 0))"
proof -
  have m: "main e argv =
      (case try_block e f of
         (evs, Returned) \<Rightarrow> (evs, 0)
       | (evs, Exited c) \<Rightarrow> (evs, c)
       | (evs, Thrown x) \<Rightarrow> (evs @ [Print Cerr (banner x)], 1))"
    using assms by (simp add: main_def)
  show ?thesis
  proof (intro conjI impI)
    assume "throws e f x"
    then have "snd (try_block e f) = Thrown x" by (rule try_block_throws)
    then show "main e argv = (fst (try_block e f) @ [Print Cerr (banner x)], 1)"
      by (cases "try_block e f") (simp add: m)
  next
    assume "completes e f"
    then have "snd (try_block e f) = Returned" by (rule try_block_completes)
    then show "main e argv = (fst (try_block e f), 0)"
      by (cases "try_block e f") (simp add: m)
  qed
qed

theorem main_exit_codes_witness:
  "2 \<le> length [''prog'', ''-p'', ''a.prm''] \<and>
   parse_loop (tl [''prog'', ''-p'', ''a.prm'']) [] = Inr ''a.prm'' \<and>
   throws env_throwing ''a.prm'' (StdException ''no convergence'') \<and>
   main env_throwing [''prog'', ''-p'', ''a.prm''] =
     ([MpiInit, Print Cout ''Hello'', ReadDimension ''a.prm'', Run2d ''a.prm'',
       Print Cerr (banner (StdException ''no convergence''))], 1) \<and>
   completes env_ok ''a.prm'' \<and>
   main env_ok [''prog'', ''-p'', ''a.prm''] =
     ([MpiInit, Print Cout ''Hello'', ReadDimension ''a.prm'', Run2d ''a.prm''], 0)"
proof -
  have a: "2 \<le> length [''prog'', ''-p'', ''a.prm'']" by simp
  have p: "parse_loop (tl [''prog'', ''-p'', ''a.prm'']) [] = Inr ''a.prm''" by simp
  have t: "throws env_throwing ''a.prm'' (StdException ''no convergence'')"
    by (simp add: throws_def env_throwing_def)
  have c: "completes env_ok ''a.prm''"
    by (simp add: completes_def env_ok_def)
  have tb1: "fst (try_block env_throwing ''a.prm'') =
      [MpiInit, Print Cout ''Hello'', ReadDimension ''a.prm'', Run2d ''a.prm'']"
    by (simp add: try_block_def env_throwing_def)
  have tb2: "fst (try_block env_ok ''a.prm'') =
      [MpiInit, Print Cout ''Hello'', ReadDimension ''a.prm'', Run2d ''a.prm'']"
    by (simp add: try_block_def env_ok_def)
  from main_exit_codes [OF a p, of env_throwing "StdException ''no convergence''"]
    main_exit_codes [OF a p, of env_ok UnknownException] a p t c
  show ?thesis by (simp only: tb1 tb2 simp_thms append.simps)
qed

text \<open>
  C10. A command line made of one or more well-formed \<open>-p <filename>\<close> pairs is parsed
  without an exit; \<open>input_file\<close> ends as the file name of the last pair, and \<open>main\<close>
  behaves as the \<open>try\<close> block run on that file name: nothing is printed about the
  earlier file names.
\<close>

theorem main_last_pair_wins:
  "fs \<noteq> [] \<Longrightarrow>
     parse_loop (pairs fs) [] = Inr (last fs) \<and>
     main e (prog # pairs fs) =
       (case try_block e (last fs) of
          (evs, Returned) \<Rightarrow> (evs, 0)
        | (evs, Exited c) \<Rightarrow> (evs, c)
        | (evs, Thrown x) \<Rightarrow> (evs @ [Print Cerr (banner x)], 1))"
  using parse_loop_pairs_append [of fs "[]" "[]"]
  by (cases fs) (simp_all add: main_def pairs_Cons)

theorem main_last_pair_wins_witness:
  "[''a.prm'', ''b.prm''] \<noteq> [] \<and>
   parse_loop [''-p'', ''a.prm'', ''-p'', ''b.prm''] [] = Inr ''b.prm'' \<and>
   main env_ok [''prog'', ''-p'', ''a.prm'', ''-p'', ''b.prm''] =
     ([MpiInit, Print Cout ''Hello'', ReadDimension ''b.prm'', Run2d ''b.prm''], 0)"
  using main_last_pair_wins [of "[''a.prm'', ''b.prm'']" env_ok "''prog''"]
  by (simp add: pairs_def try_block_def env_ok_def)

section \<open>Properties of the Q1 trace function\<close>

lemma upt4: "[0..<4] = [0, 1, 2, 3]"
  by (simp add: upt_rec)

lemma upt8: "[0..<8] = [0, 1, 2, 3, 4, 5, 6, 7]"
  by (simp add: upt_rec)

lemma point_matrix_unit_square:
  "point_matrix_2 unit_square = [[1, 0, 0, 0], [1, 1, 0, 0], [1, 0, 1, 0], [1, 1, 1, 1]]"
  by (simp add: point_matrix_2_def upt4 unit_square_def)

lemma point_matrix_unit_cube:
  "point_matrix_3 unit_cube =
     [[1, 0, 0, 0, 0, 0, 0, 0],
      [1, 1, 0, 0, 0, 0, 0, 0],
      [1, 0, 1, 0, 0, 0, 0, 0],
      [1, 1, 1, 0, 1, 0, 0, 0],
      [1, 0, 0, 1, 0, 0, 0, 0],
      [1, 1, 0, 1, 0, 0, 1, 0],
      [1, 0, 1, 1, 0, 1, 0, 0],
      [1, 1, 1, 1, 1, 1, 1, 1]]"
  by (simp add: point_matrix_3_def upt8 unit_cube_def)









text \<open>
  C8. The copy constructor copies the coefficient matrix unchanged and sets the index
  to 0, whatever index the source object has; the copy evaluates trace 0, and after
  \<open>set_index j\<close> on the copy it evaluates trace \<open>j\<close> of the same matrix.
\<close>

theorem BasisQ1_copy_resets_index:
  "coeff_matrix (BasisQ1_copy b) = coeff_matrix b \<and>
   index_basis (BasisQ1_copy b) = 0 \<and>
   vector_value_2 (BasisQ1_copy b) p2 vec = vector_value_2 (set_index b 0) p2 vec \<and>
   vector_value_3 (BasisQ1_copy b) p3 vec = vector_value_3 (set_index b 0) p3 vec \<and>
   vector_value_2 (set_index (BasisQ1_copy b) j) p2 vec = vector_value_2 (set_index b j) p2 vec \<and>
   vector_value_3 (set_index (BasisQ1_copy b) j) p3 vec = vector_value_3 (set_index b j) p3 vec"
  by (simp add: BasisQ1_copy_def set_index_def vector_value_2_def vector_value_3_def
      value_2_def value_3_def)

theorem BasisQ1_copy_resets_index_witness:
  "index_basis (set_index (BasisQ1_2 sample_invert unit_square) 3) = 3 \<and>
   index_basis (BasisQ1_copy (set_index (BasisQ1_2 sample_invert unit_square) 3)) = 0 \<and>
   vector_value_2 (set_index (BasisQ1_2 sample_invert unit_square) 3) (1, 1) [0, 0]
     = Inr [1, 1] \<and>
   vector_value_2 (BasisQ1_copy (set_index (BasisQ1_2 sample_invert unit_square) 3)) (1, 1) [0, 0]
     = Inr [0, 0]"
  using BasisQ1_copy_resets_index
    [of "set_index (BasisQ1_2 sample_invert unit_square) 3" "(1, 1)" "[0, 0]"]
  by (simp add: vector_value_2_def value_2_def set_index_def BasisQ1_2_def
      sample_invert_def point_matrix_unit_square unit_square_inverse_def in_range_def upt4)

text \<open>The loop, started at index \<open>p\<close>, keeps the slots below \<open>p\<close> and fills the others.\<close>

lemma value_list_loop_Inr:
  assumes "length values = length points" and "p \<le> length points"
  shows "value_list_loop body points p values = Inr outs \<longleftrightarrow>
           length outs = length points \<and>
           (\<forall>i<p. outs ! i = values ! i) \<and>
           (\<forall>i. p \<le> i \<and> i < length points \<longrightarrow> body (points ! i) (values ! i) = Inr (outs ! i))"
  using assms
proof (induction body points p "values" rule: value_list_loop.induct)
  case (1 body points p vals)
  show ?case
  proof (cases "p < length points")
    case False
    with "1.prems" have p: "p = length points" by simp
    have "value_list_loop body points p vals = Inr vals"
      using False by (simp add: value_list_loop.simps)
    moreover have "vals = outs \<longleftrightarrow> length outs = length points \<and> (\<forall>i<p. outs ! i = vals ! i)"
      using "1.prems" p by (auto simp: list_eq_iff_nth_eq)
    ultimately show ?thesis using p by auto
  next
    case True
    show ?thesis
    proof (cases "body (points ! p) (vals ! p)")
      case (Inl err)
      then have "value_list_loop body points p vals = Inl err"
        using True by (simp add: value_list_loop.simps)
      moreover have "body (points ! p) (vals ! p) \<noteq> Inr (outs ! p)"
        using Inl by simp
      ultimately show ?thesis using True by auto
    next
      case (Inr v)
      have step: "value_list_loop body points p vals =
                  value_list_loop body points (Suc p) (vals[p := v])"
        using True Inr by (simp add: value_list_loop.simps [of body points p vals])
      have IH: "value_list_loop body points (Suc p) (vals[p := v]) = Inr outs \<longleftrightarrow>
           length outs = length points \<and>
           (\<forall>i<Suc p. outs ! i = vals[p := v] ! i) \<and>
           (\<forall>i. Suc p \<le> i \<and> i < length points \<longrightarrow>
                body (points ! i) (vals[p := v] ! i) = Inr (outs ! i))"
        using "1.IH" [OF True Inr] "1.prems" True by simp
      have a: "(\<forall>i<Suc p. outs ! i = vals[p := v] ! i) \<longleftrightarrow>
               (\<forall>i<p. outs ! i = vals ! i) \<and> outs ! p = v"
        using True "1.prems" by (auto simp: less_Suc_eq nth_list_update)
      have b: "(\<forall>i. Suc p \<le> i \<and> i < length points \<longrightarrow>
                body (points ! i) (vals[p := v] ! i) = Inr (outs ! i)) \<longleftrightarrow>
               (\<forall>i. Suc p \<le> i \<and> i < length points \<longrightarrow>
                body (points ! i) (vals ! i) = Inr (outs ! i))"
        by (auto simp: nth_list_update)
      have c: "(\<forall>i. p \<le> i \<and> i < length points \<longrightarrow> body (points ! i) (vals ! i) = Inr (outs ! i))
             \<longleftrightarrow> outs ! p = v \<and> (\<forall>i. Suc p \<le> i \<and> i < length points \<longrightarrow>
                body (points ! i) (vals ! i) = Inr (outs ! i))"
        (is "?L \<longleftrightarrow> ?R")
      proof
        assume L: ?L
        then have "body (points ! p) (vals ! p) = Inr (outs ! p)" using True by simp
        with Inr have "outs ! p = v" by simp
        with L show ?R by simp
      next
        assume R: ?R
        show ?L
        proof (intro allI impI)
          fix i assume i: "p \<le> i \<and> i < length points"
          show "body (points ! i) (vals ! i) = Inr (outs ! i)"
          proof (cases "i = p")
            case True
            then show ?thesis using R Inr by simp
          next
            case False
            then have "Suc p \<le> i" using i by simp
            then show ?thesis using R i by simp
          qed
        qed
      qed
      show ?thesis unfolding step IH a b c by blast
    qed
  qed
qed

lemma value_list_Inr:
  assumes "length points = length values"
  shows "value_list body points values = Inr outs \<longleftrightarrow>
           length outs = length points \<and>
           (\<forall>p<length points. body (points ! p) (values ! p) = Inr (outs ! p))"
  using assms value_list_loop_Inr [of "values" points 0 body outs]
  by (simp add: value_list_def)

text \<open>If every call of the body returns, so does the list function.\<close>

lemma value_list_returns:
  assumes len: "length points = length values"
    and ok: "\<forall>p<length points. \<exists>r. body (points ! p) (values ! p) = Inr r"
  shows "\<exists>outs. value_list body points values = Inr outs"
proof -
  let ?outs = "map (\<lambda>p. projr (body (points ! p) (values ! p))) [0..<length points]"
  have "body (points ! p) (values ! p) = Inr (?outs ! p)" if "p < length points" for p
  proof -
    from ok that obtain r where "body (points ! p) (values ! p) = Inr r" by blast
    then show ?thesis using that by simp
  qed
  then have "value_list body points values = Inr ?outs"
    using len by (simp add: value_list_Inr)
  then show ?thesis ..
qed

lemma tensor_body_2_Inr:
  "tensor_body_2 b pt t = Inr u \<longleftrightarrow>
     (\<exists>r. vector_value_2 b pt [0, 0] = Inr r \<and> u = (r ! 0, r ! 1))"
  by (auto simp: tensor_body_2_def split: sum.splits)

lemma tensor_body_3_Inr:
  "tensor_body_3 b pt t = Inr u \<longleftrightarrow>
     (\<exists>r. vector_value_3 b pt [0, 0, 0] = Inr r \<and> u = (r ! 0, r ! 1, r ! 2))"
  by (auto simp: tensor_body_3_def split: sum.splits)

text \<open>
  C9. For lists of points and of output slots of equal length, \<open>vector_value_list\<close>
  returns the list \<open>outs\<close> exactly when \<open>outs\<close> has that length and its \<open>p\<close>-th entry is
  what \<open>vector_value\<close> returns for the \<open>p\<close>-th point on the \<open>p\<close>-th slot; and
  \<open>tensor_value_list\<close> returns \<open>outs\<close> exactly when its \<open>p\<close>-th entry holds the
  components of \<open>vector_value\<close> at the \<open>p\<close>-th point. This holds in 2D and in 3D, and
  both functions return whenever every pointwise evaluation does.
\<close>

theorem value_lists_pointwise:
  "(length pts2 = length vals2 \<longrightarrow>
      (vector_value_list_2 b pts2 vals2 = Inr outs2 \<longleftrightarrow>
         length outs2 = length pts2 \<and>
         (\<forall>p<length pts2. vector_value_2 b (pts2 ! p) (vals2 ! p) = Inr (outs2 ! p))) \<and>
      ((\<forall>p<length pts2. \<exists>r. vector_value_2 b (pts2 ! p) (vals2 ! p) = Inr r) \<longrightarrow>
         (\<exists>outs. vector_value_list_2 b pts2 vals2 = Inr outs))) \<and>
   (length pts3 = length vals3 \<longrightarrow>
      (vector_value_list_3 b pts3 vals3 = Inr outs3 \<longleftrightarrow>
         length outs3 = length pts3 \<and>
         (\<forall>p<length pts3. vector_value_3 b (pts3 ! p) (vals3 ! p) = Inr (outs3 ! p))) \<and>
      ((\<forall>p<length pts3. \<exists>r. vector_value_3 b (pts3 ! p) (vals3 ! p) = Inr r) \<longrightarrow>
         (\<exists>outs. vector_value_list_3 b pts3 vals3 = Inr outs))) \<and>
   (length pts2 = length tens2 \<longrightarrow>
      (tensor_value_list_2 b pts2 tens2 = Inr touts2 \<longleftrightarrow>
         length touts2 = length pts2 \<and>
         (\<forall>p<length pts2. \<exists>r. vector_value_2 b (pts2 ! p) [0, 0] = Inr r \<and>
                                touts2 ! p = (r ! 0, r ! 1))) \<and>
      ((\<forall>p<length pts2. \<exists>r. vector_value_2 b (pts2 ! p) [0, 0] = Inr r) \<longrightarrow>
         (\<exists>outs. tensor_value_list_2 b pts2 tens2 = Inr outs))) \<and>
   (length pts3 = length tens3 \<longrightarrow>
      (tensor_value_list_3 b pts3 tens3 = Inr touts3 \<longleftrightarrow>
         length touts3 = length pts3 \<and>
         (\<forall>p<length pts3. \<exists>r. vector_value_3 b (pts3 ! p) [0, 0, 0] = Inr r \<and>
                                touts3 ! p = (r ! 0, r ! 1, r ! 2))) \<and>
      ((\<forall>p<length pts3. \<exists>r. vector_value_3 b (pts3 ! p) [0, 0, 0] = Inr r) \<longrightarrow>
         (\<exists>outs. tensor_value_list_3 b pts3 tens3 = Inr outs)))"
proof (intro conjI impI)
  assume "length pts2 = length vals2"
  then show "vector_value_list_2 b pts2 vals2 = Inr outs2 \<longleftrightarrow>
         length outs2 = length pts2 \<and>
         (\<forall>p<length pts2. vector_value_2 b (pts2 ! p) (vals2 ! p) = Inr (outs2 ! p))"
    by (simp add: vector_value_list_2_def value_list_Inr)
next
  assume "length pts2 = length vals2"
    and "\<forall>p<length pts2. \<exists>r. vector_value_2 b (pts2 ! p) (vals2 ! p) = Inr r"
  then show "\<exists>outs. vector_value_list_2 b pts2 vals2 = Inr outs"
    unfolding vector_value_list_2_def by (rule value_list_returns)
next
  assume "length pts3 = length vals3"
  then show "vector_value_list_3 b pts3 vals3 = Inr outs3 \<longleftrightarrow>
         length outs3 = length pts3 \<and>
         (\<forall>p<length pts3. vector_value_3 b (pts3 ! p) (vals3 ! p) = Inr (outs3 ! p))"
    by (simp add: vector_value_list_3_def value_list_Inr)
next
  assume "length pts3 = length vals3"
    and "\<forall>p<length pts3. \<exists>r. vector_value_3 b (pts3 ! p) (vals3 ! p) = Inr r"
  then show "\<exists>outs. vector_value_list_3 b pts3 vals3 = Inr outs"
    unfolding vector_value_list_3_def by (rule value_list_returns)
next
  assume "length pts2 = length tens2"
  then show "tensor_value_list_2 b pts2 tens2 = Inr touts2 \<longleftrightarrow>
         length touts2 = length pts2 \<and>
         (\<forall>p<length pts2. \<exists>r. vector_value_2 b (pts2 ! p) [0, 0] = Inr r \<and>
                                touts2 ! p = (r ! 0, r ! 1))"
    by (simp add: tensor_value_list_2_def value_list_Inr tensor_body_2_Inr)
next
  assume len: "length pts2 = length tens2"
    and ok: "\<forall>p<length pts2. \<exists>r. vector_value_2 b (pts2 ! p) [0, 0] = Inr r"
  have "\<forall>p<length pts2. \<exists>u. tensor_body_2 b (pts2 ! p) (tens2 ! p) = Inr u"
    using ok by (simp add: tensor_body_2_Inr)
  with len show "\<exists>outs. tensor_value_list_2 b pts2 tens2 = Inr outs"
    unfolding tensor_value_list_2_def by (rule value_list_returns)
next
  assume "length pts3 = length tens3"
  then show "tensor_value_list_3 b pts3 tens3 = Inr touts3 \<longleftrightarrow>
         length touts3 = length pts3 \<and>
         (\<forall>p<length pts3. \<exists>r. vector_value_3 b (pts3 ! p) [0, 0, 0] = Inr r \<and>
                                touts3 ! p = (r ! 0, r ! 1, r ! 2))"
    by (simp add: tensor_value_list_3_def value_list_Inr tensor_body_3_Inr)
next
  assume len: "length pts3 = length tens3"
    and ok: "\<forall>p<length pts3. \<exists>r. vector_value_3 b (pts3 ! p) [0, 0, 0] = Inr r"
  have "\<forall>p<length pts3. \<exists>u. tensor_body_3 b (pts3 ! p) (tens3 ! p) = Inr u"
    using ok by (simp add: tensor_body_3_Inr)
  with len show "\<exists>outs. tensor_value_list_3 b pts3 tens3 = Inr outs"
    unfolding tensor_value_list_3_def by (rule value_list_returns)
qed

theorem value_lists_pointwise_witness:
  "length [(0, 1), (1 / 2, 1 / 2) :: point_2] = length [[7, 7], [9, 9 :: real]] \<and>
   vector_value_list_2 (set_index (BasisQ1_2 sample_invert unit_square) 2)
     [(0, 1), (1 / 2, 1 / 2)] [[7, 7], [9, 9]] = Inr [[1, 1], [1 / 4, 1 / 4]] \<and>
   length [(0, 1), (1 / 2, 1 / 2) :: point_2] = length [(7, 7), (9, 9) :: tensor_2] \<and>
   tensor_value_list_2 (set_index (BasisQ1_2 sample_invert unit_square) 2)
     [(0, 1), (1 / 2, 1 / 2)] [(7, 7), (9, 9)] = Inr [(1, 1), (1 / 4, 1 / 4)] \<and>
   length [(1 / 2, 1 / 2, 1 / 2) :: point_3] = length [[7, 7, 7 :: real]] \<and>
   vector_value_list_3 (set_index (BasisQ1_3 sample_invert unit_cube) 7)
     [(1 / 2, 1 / 2, 1 / 2)] [[7, 7, 7]] = Inr [[1 / 8, 1 / 8, 1 / 8]] \<and>
   length [(1 / 2, 1 / 2, 1 / 2) :: point_3] = length [(7, 7, 7) :: tensor_3] \<and>
   tensor_value_list_3 (set_index (BasisQ1_3 sample_invert unit_cube) 7)
     [(1 / 2, 1 / 2, 1 / 2)] [(7, 7, 7)] = Inr [(1 / 8, 1 / 8, 1 / 8)]"
proof -
  let ?b2 = "set_index (BasisQ1_2 sample_invert unit_square) 2"
  let ?b3 = "set_index (BasisQ1_3 sample_invert unit_cube) 7"
  let ?pts2 = "[(0, 1), (1 / 2, 1 / 2)] :: point_2 list"
  let ?pts3 = "[(1 / 2, 1 / 2, 1 / 2)] :: point_3 list"
  have val2: "value_2 ?b2 (0, 1) = Inr 1" "value_2 ?b2 (1 / 2, 1 / 2) = Inr (1 / 4)"
    by (simp_all add: value_2_def set_index_def BasisQ1_2_def sample_invert_def
        point_matrix_unit_square unit_square_inverse_def in_range_def upt4)
  have val3: "value_3 ?b3 (1 / 2, 1 / 2, 1 / 2) = Inr (1 / 8)"
    by (simp add: value_3_def set_index_def BasisQ1_3_def sample_invert_def
        point_matrix_unit_cube unit_cube_inverse_def in_range_def upt8)
  have two: "(\<forall>p<Suc (Suc 0). P p) \<longleftrightarrow> P 0 \<and> P (Suc 0)" for P :: "nat \<Rightarrow> bool"
    by (auto simp: less_Suc_eq)
  have r1: "\<forall>p<length ?pts2.
      vector_value_2 ?b2 (?pts2 ! p) ([[7, 7], [9, 9]] ! p) = Inr ([[1, 1], [1 / 4, 1 / 4]] ! p)"
    by (simp add: two vector_value_2_def val2)
  have r2: "\<forall>p<length ?pts2. \<exists>r. vector_value_2 ?b2 (?pts2 ! p) [0, 0] = Inr r \<and>
      [(1, 1), (1 / 4, 1 / 4)] ! p = (r ! 0, r ! 1)"
    by (simp add: two vector_value_2_def val2)
  have r3: "\<forall>p<length ?pts3.
      vector_value_3 ?b3 (?pts3 ! p) ([[7, 7, 7]] ! p) = Inr ([[1 / 8, 1 / 8, 1 / 8]] ! p)"
    by (simp add: vector_value_3_def val3)
  have r4: "\<forall>p<length ?pts3. \<exists>r. vector_value_3 ?b3 (?pts3 ! p) [0, 0, 0] = Inr r \<and>
      [(1 / 8, 1 / 8, 1 / 8)] ! p = (r ! 0, r ! 1, r ! 2)"
    by (simp add: vector_value_3_def val3)
  note thm2 = value_lists_pointwise [of ?pts2 "[[7, 7], [9, 9]]" ?b2
      "[[1, 1], [1 / 4, 1 / 4]]" "[]" "[]" "[]" "[(7, 7), (9, 9)]" "[(1, 1), (1 / 4, 1 / 4)]"
      "[]" "[]"]
  note thm3 = value_lists_pointwise [of "[]" "[]" ?b3 "[]" ?pts3
      "[[7, 7, 7]]" "[[1 / 8, 1 / 8, 1 / 8]]" "[]" "[]" "[(7, 7, 7)]"
      "[(1 / 8, 1 / 8, 1 / 8)]"]
  have v2: "vector_value_list_2 ?b2 ?pts2 [[7, 7], [9, 9]] = Inr [[1, 1], [1 / 4, 1 / 4]]"
    using thm2 r1 by simp
  have t2: "tensor_value_list_2 ?b2 ?pts2 [(7, 7), (9, 9)] = Inr [(1, 1), (1 / 4, 1 / 4)]"
    using thm2 r2 by simp
  have v3: "vector_value_list_3 ?b3 ?pts3 [[7, 7, 7]] = Inr [[1 / 8, 1 / 8, 1 / 8]]"
    using thm3 r3 by simp
  have t3: "tensor_value_list_3 ?b3 ?pts3 [(7, 7, 7)] = Inr [(1 / 8, 1 / 8, 1 / 8)]"
    using thm3 r4 by simp
  show ?thesis
    by (simp only: v2 t2 v3 t3 simp_thms) simp
qed

section \<open>Properties of the body force\<close>

text \<open>
  C3. For every mass density \<open>\<rho>\<close> given to the constructor and every point, the body
  force is the same vector: its last component is \<open>- 9.81 \<cdot> \<rho>\<close> (pointing down), all
  other components are zero, so its magnitude is \<open>9.81 \<cdot> |\<rho>|\<close>; it does not depend on
  the point. Stated for dimensions 2 and 3.
\<close>

theorem BodyForce_constant_downward:
  "force_value (BodyForce_init r) = 9.81 * r \<and>
   BodyForce_vector_value 2 (BodyForce_init r) p = [0, - (9.81 * r)] \<and>
   BodyForce_vector_value 3 (BodyForce_init r) p = [0, 0, - (9.81 * r)] \<and>
   BodyForce_vector_value d (BodyForce_init r) p = BodyForce_vector_value d (BodyForce_init r) q \<and>
   sqrt (\<Sum>c \<leftarrow> BodyForce_vector_value 2 (BodyForce_init r) p. c * c) = 9.81 * \<bar>r\<bar> \<and>
   sqrt (\<Sum>c \<leftarrow> BodyForce_vector_value 3 (BodyForce_init r) p. c * c) = 9.81 * \<bar>r\<bar>"
proof -
  have v2: "BodyForce_vector_value 2 bf p = [0, - force_value bf]" for bf
    by (simp add: BodyForce_vector_value_def numeral_2_eq_2)
  have v3: "BodyForce_vector_value 3 bf p = [0, 0, - force_value bf]" for bf
    by (simp add: BodyForce_vector_value_def numeral_3_eq_3)
  have f: "force_value (BodyForce_init r) = 9.81 * r"
    by (simp add: BodyForce_init_def)
  have n: "sqrt (9.81 * r * (9.81 * r)) = 9.81 * \<bar>r\<bar>"
    by (simp only: real_sqrt_abs2) (simp add: abs_mult)
  have c1: "BodyForce_vector_value 2 (BodyForce_init r) p = [0, - (9.81 * r)]"
    by (simp only: v2 f)
  have c2: "BodyForce_vector_value 3 (BodyForce_init r) p = [0, 0, - (9.81 * r)]"
    by (simp only: v3 f)
  have c3: "BodyForce_vector_value d (BodyForce_init r) p
              = BodyForce_vector_value d (BodyForce_init r) q"
    by (simp add: BodyForce_vector_value_def)
  have c4: "sqrt (\<Sum>c \<leftarrow> BodyForce_vector_value 2 (BodyForce_init r) p. c * c) = 9.81 * \<bar>r\<bar>"
    unfolding c1 using n by simp
  have c5: "sqrt (\<Sum>c \<leftarrow> BodyForce_vector_value 3 (BodyForce_init r) p. c * c) = 9.81 * \<bar>r\<bar>"
    unfolding c2 using n by simp
  from f c1 c2 c3 c4 c5 show ?thesis by (intro conjI)
qed

end
